theory Spec2Isabelle
  imports Main "HOL-Library.Sublist"
begin

section \<open>Python values, exceptions and the interpreter state\<close>

text \<open>
  The fixture \<^verbatim>\<open>test-fixtures/bandit-issues.py\<close> is a Python module of 36 small functions and
  two module-level string constants. Its functions are embedded as HOL functions over an
  explicit interpreter state; every raise is a value \<open>Inl e\<close> of the result.
\<close>

datatype pyval =
    PNone
  | PBool bool
  | PInt int
  | PStr string
  | PBytes string
  | PTuple "pyval list"
  | PList "pyval list"
  | PObj string "pyval list"

text \<open>
  \<open>PObj c fs\<close> is an object of a library class \<open>c\<close> (a socket, a file, a hash object).
  \<open>BaseException n\<close> stands for the exceptions that do not derive from
  \<^verbatim>\<open>Exception\<close> (KeyboardInterrupt, SystemExit, GeneratorExit); \<open>Exception n\<close> for every
  other exception class that is not listed by name.
\<close>

datatype exn =
    AssertionError string
  | TypeError
  | AttributeError
  | Exception string
  | BaseException string

fun is_Exception :: "exn \<Rightarrow> bool" where
  "is_Exception (BaseException n) = False"
| "is_Exception e = True"

text \<open>
  The world a library call can act on: the file system (contents and permission bits by
  path) and the module namespace. The bindings of the module's two constants are created
  when the module is loaded (lines 38 and 39).
\<close>

record world =
  files :: "string \<rightharpoonup> string"
  perms :: "string \<rightharpoonup> nat"
  globals :: "string \<rightharpoonup> pyval"

definition PASSWORD :: string where
  "PASSWORD = ''super_secret_password123''"

definition API_KEY :: string where
  "API_KEY = ''sk-1234567890abcdef''"

definition module_load :: "world \<Rightarrow> world" where
  "module_load w =
     w\<lparr>globals := (globals w)(''PASSWORD'' \<mapsto> PStr PASSWORD, ''API_KEY'' \<mapsto> PStr API_KEY)\<rparr>"

text \<open>
  Everything the fixture calls outside itself (builtins such as \<^verbatim>\<open>exec\<close> and \<^verbatim>\<open>open\<close>, the
  standard library, third-party packages) is a parameter \<open>L\<close>: the call's qualified name,
  its positional and keyword arguments and the world give a result or an exception, and
  the new world.
\<close>

type_synonym lib =
  "string \<Rightarrow> pyval list \<Rightarrow> (string \<times> pyval) list \<Rightarrow> world \<Rightarrow> (exn + pyval) \<times> world"

datatype event = Event string "pyval list" "(string \<times> pyval) list" "exn + pyval"

fun event_name :: "event \<Rightarrow> string" where
  "event_name (Event n as kw r) = n"

fun event_raised :: "event \<Rightarrow> bool" where
  "event_raised (Event n as kw r) = isl r"

text \<open>
  The interpreter state: the world, the log of the library calls made so far (each with
  its outcome), and the interpreter's \<^verbatim>\<open>__debug__\<close> flag, which is False under
  \<^verbatim>\<open>python -O\<close> and which no call can change.
\<close>

record state =
  env :: world
  trace :: "event list"
  debug :: bool

type_synonym 'a prog = "state \<Rightarrow> (exn + 'a) \<times> state"

definition returnE :: "'a \<Rightarrow> 'a prog" where
  "returnE x s = (Inr x, s)"

definition raiseE :: "exn \<Rightarrow> 'a prog" where
  "raiseE e s = (Inl e, s)"

definition bindE :: "'a prog \<Rightarrow> ('a \<Rightarrow> 'b prog) \<Rightarrow> 'b prog" where
  "bindE m f s = (case m s of (Inl e, s') \<Rightarrow> (Inl e, s') | (Inr x, s') \<Rightarrow> f x s')"

definition call :: "lib \<Rightarrow> string \<Rightarrow> pyval list \<Rightarrow> (string \<times> pyval) list \<Rightarrow> pyval prog" where
  "call L name as kw s =
     (case L name as kw (env s) of
        (r, w') \<Rightarrow> (r, s\<lparr>env := w', trace := trace s @ [Event name as kw r]\<rparr>))"

text \<open>\<^verbatim>\<open>import m\<close> and \<^verbatim>\<open>from m import n\<close> inside a function body: the import can raise.\<close>

definition import_module :: "lib \<Rightarrow> string \<Rightarrow> pyval prog" where
  "import_module L m = call L ''import'' [PStr m] []"

definition from_import :: "lib \<Rightarrow> string \<Rightarrow> string \<Rightarrow> pyval prog" where
  "from_import L m n = call L ''import'' [PStr m, PStr n] []"

text \<open>
  A method call on a value computed at run time. Of the method names the fixture uses
  (\<^verbatim>\<open>bind\<close>, \<^verbatim>\<open>write\<close>, \<^verbatim>\<open>close\<close>, \<^verbatim>\<open>encode\<close>, \<^verbatim>\<open>hexdigest\<close>, \<^verbatim>\<open>update\<close>,
  \<^verbatim>\<open>set_missing_host_key_policy\<close>, \<^verbatim>\<open>connect\<close>) the builtin types have only \<^verbatim>\<open>str.encode\<close>;
  on any other builtin value the attribute lookup raises AttributeError.
\<close>

fun has_method :: "pyval \<Rightarrow> string \<Rightarrow> bool" where
  "has_method (PObj c fs) m = True"
| "has_method (PStr s) m = (m = ''encode'')"
| "has_method v m = False"

definition call_method :: "lib \<Rightarrow> pyval \<Rightarrow> string \<Rightarrow> pyval list \<Rightarrow> (string \<times> pyval) list \<Rightarrow> pyval prog" where
  "call_method L recv m as kw =
     (if has_method recv m then call L (''.'' @ m) (recv # as) kw else raiseE AttributeError)"

text \<open>
  \<^verbatim>\<open>try: body except Exception: handler\<close>: the handler runs for an exception that derives
  from \<^verbatim>\<open>Exception\<close>; any other exception propagates.
\<close>

definition try_except :: "'a prog \<Rightarrow> 'a prog \<Rightarrow> 'a prog" where
  "try_except body handler s =
     (case body s of
        (Inl e, s') \<Rightarrow> if is_Exception e then handler s' else (Inl e, s')
      | (Inr x, s') \<Rightarrow> (Inr x, s'))"

text \<open>
  \<^verbatim>\<open>with open(...) as f: body\<close>: the file is closed when the body ends, also by an
  exception, which a file object never suppresses.
\<close>

definition with_file :: "lib \<Rightarrow> pyval \<Rightarrow> pyval prog \<Rightarrow> pyval prog" where
  "with_file L f body s =
     (case body s of
        (Inl e, s') \<Rightarrow>
          (case call_method L f ''close'' [] [] s' of
             (Inl e', s'') \<Rightarrow> (Inl e', s'')
           | (Inr x, s'') \<Rightarrow> (Inl e, s''))
      | (Inr x, s') \<Rightarrow> bindE (call_method L f ''close'' [] []) (\<lambda>c. returnE PNone) s')"

subsection \<open>Formatting a value in an f-string\<close>

definition digit_char :: "nat \<Rightarrow> char" where
  "digit_char d = ''0123456789'' ! (d mod 10)"

fun digits :: "nat \<Rightarrow> string" where
  "digits n = (if n < 10 then [digit_char n] else digits (n div 10) @ [digit_char (n mod 10)])"

definition show_int :: "int \<Rightarrow> string" where
  "show_int i = (if i < 0 then CHR ''-'' # digits (nat (- i)) else digits (nat i))"

text \<open>
  \<^verbatim>\<open>f"...{v}"\<close> formats \<open>v\<close> as \<^verbatim>\<open>format(v, "")\<close>: the text of a str, None, a bool or
  an int; for any other value the object's own \<^verbatim>\<open>__format__\<close>, which must return a str.
\<close>

definition fmt :: "lib \<Rightarrow> pyval \<Rightarrow> string prog" where
  "fmt L v =
     (case v of
        PStr s \<Rightarrow> returnE s
      | PNone \<Rightarrow> returnE ''None''
      | PBool b \<Rightarrow> returnE (if b then ''True'' else ''False'')
      | PInt i \<Rightarrow> returnE (show_int i)
      | _ \<Rightarrow> bindE (call L ''format'' [v] [])
               (\<lambda>r. case r of PStr s \<Rightarrow> returnE s | _ \<Rightarrow> raiseE TypeError))"

text \<open>
  \<^verbatim>\<open>for item in items\<close>: the elements of a list or tuple, the characters of a str, the
  bytes of a bytes object; None, a bool or an int is not iterable; a library object is
  iterated by its own code, which yields its elements or raises.
\<close>

definition iterate :: "lib \<Rightarrow> pyval \<Rightarrow> (pyval list) prog" where
  "iterate L items =
     (case items of
        PList xs \<Rightarrow> returnE xs
      | PTuple xs \<Rightarrow> returnE xs
      | PStr s \<Rightarrow> returnE (map (\<lambda>c. PStr [c]) s)
      | PBytes b \<Rightarrow> returnE (map (\<lambda>c. PInt (int (of_char c))) b)
      | PObj c fs \<Rightarrow> bindE (call L ''list'' [items] [])
               (\<lambda>r. case r of PList xs \<Rightarrow> returnE xs | _ \<Rightarrow> raiseE TypeError)
      | _ \<Rightarrow> raiseE TypeError)"

section \<open>The functions of the fixture\<close>

text \<open>Lines 15-17. The assert statement is compiled only when \<^verbatim>\<open>__debug__\<close> is true.\<close>

definition assert_usage :: "pyval \<Rightarrow> pyval prog" where
  "assert_usage user_input s =
     (if debug s \<and> \<not> (user_input \<noteq> PNone) then raiseE (AssertionError ''Input required'') s
      else returnE user_input s)"

text \<open>Lines 21-22.\<close>

definition exec_usage :: "lib \<Rightarrow> pyval \<Rightarrow> pyval prog" where
  "exec_usage L code_string = bindE (call L ''exec'' [code_string] []) (\<lambda>r. returnE PNone)"

text \<open>Lines 26-27; \<^verbatim>\<open>0o777\<close> is 511.\<close>

definition bad_permissions :: "lib \<Rightarrow> pyval prog" where
  "bad_permissions L =
     bindE (call L ''os.chmod'' [PStr ''/tmp/secret.txt'', PInt 511] []) (\<lambda>r. returnE PNone)"

text \<open>Lines 31-34.\<close>

definition bind_all_interfaces :: "lib \<Rightarrow> pyval prog" where
  "bind_all_interfaces L =
     bindE (import_module L ''socket'') (\<lambda>m.
     bindE (call L ''socket.socket'' [] []) (\<lambda>s.
     bindE (call_method L s ''bind'' [PTuple [PStr ''0.0.0.0'', PInt 8080]] []) (\<lambda>r.
     returnE PNone)))"

text \<open>Lines 42-43; the default of \<^verbatim>\<open>password\<close> is \<^verbatim>\<open>"admin123"\<close>.\<close>

definition connect_db :: "lib \<Rightarrow> pyval \<Rightarrow> pyval prog" where
  "connect_db L password =
     bindE (fmt L password) (\<lambda>p. returnE (PStr (''connecting with '' @ p)))"

text \<open>Lines 46-47; the default of \<^verbatim>\<open>passwd\<close> is \<^verbatim>\<open>"default_pass"\<close>.\<close>

definition login :: "pyval \<Rightarrow> pyval \<Rightarrow> pyval prog" where
  "login user passwd = returnE PNone"

text \<open>Lines 51-53.\<close>

definition use_tmp :: "lib \<Rightarrow> pyval prog" where
  "use_tmp L =
     bindE (call L ''open'' [PStr ''/tmp/data.txt'', PStr ''w''] []) (\<lambda>f.
     with_file L f (call_method L f ''write'' [PStr ''sensitive data''] []))"

text \<open>
  Lines 57-61 and 64-65. \<open>ignore_errors_with\<close> is the body of \<^verbatim>\<open>ignore_errors\<close> with the
  function it calls as a parameter; the file binds that name to \<^verbatim>\<open>risky_operation\<close>.
\<close>

definition risky_operation :: "pyval prog" where
  "risky_operation = returnE PNone"

definition ignore_errors_with :: "pyval prog \<Rightarrow> pyval prog" where
  "ignore_errors_with callee =
     bindE (try_except callee (returnE PNone)) (\<lambda>r. returnE PNone)"

definition ignore_errors :: "pyval prog" where
  "ignore_errors = ignore_errors_with risky_operation"

text \<open>
  Lines 69-74 and 77-78. \<open>for_items\<close> is the loop, \<open>continue_on_error_with\<close> the body of
  \<^verbatim>\<open>continue_on_error\<close> with the function it calls as a parameter; the file binds that
  name to \<^verbatim>\<open>process\<close>.
\<close>

definition process :: "pyval \<Rightarrow> pyval prog" where
  "process item = returnE PNone"

fun for_items :: "(pyval \<Rightarrow> pyval prog) \<Rightarrow> pyval list \<Rightarrow> pyval prog" where
  "for_items callee [] = returnE PNone"
| "for_items callee (item # rest) =
     bindE (try_except (callee item) (returnE PNone)) (\<lambda>r. for_items callee rest)"

definition continue_on_error_with :: "(pyval \<Rightarrow> pyval prog) \<Rightarrow> lib \<Rightarrow> pyval \<Rightarrow> pyval prog" where
  "continue_on_error_with callee L items = bindE (iterate L items) (for_items callee)"

definition continue_on_error :: "lib \<Rightarrow> pyval \<Rightarrow> pyval prog" where
  "continue_on_error = continue_on_error_with process"

text \<open>Lines 83-84; the payload is the bytes literal of line 84.\<close>

definition pickle_payload :: string where
  "pickle_payload =
     ''cos'' @ [CHR 0x0A] @ ''system'' @ [CHR 0x0A] @ ''(S'' @ [CHR 0x27] @ ''echo hacked''
       @ [CHR 0x27] @ [CHR 0x0A] @ ''tR.''"

definition unsafe_pickle :: "lib \<Rightarrow> pyval prog" where
  "unsafe_pickle L =
     bindE (call L ''pickle.loads'' [PBytes pickle_payload] []) (\<lambda>data. returnE PNone)"

text \<open>Lines 88-89.\<close>

definition weak_hash :: "lib \<Rightarrow> pyval \<Rightarrow> pyval prog" where
  "weak_hash L data =
     bindE (call_method L data ''encode'' [] []) (\<lambda>b.
     bindE (call L ''hashlib.md5'' [b] []) (\<lambda>h.
     call_method L h ''hexdigest'' [] []))"

text \<open>Lines 93-96 and 100-103.\<close>

definition weak_cipher :: "lib \<Rightarrow> pyval prog" where
  "weak_cipher L =
     bindE (from_import L ''Crypto.Cipher'' ''DES'') (\<lambda>m.
     bindE (call L ''getattr'' [PStr ''Crypto.Cipher.DES'', PStr ''MODE_ECB''] []) (\<lambda>mode.
     bindE (call L ''Crypto.Cipher.DES.new'' [PBytes ''12345678'', mode] []) (\<lambda>cipher.
     returnE PNone)))"

definition insecure_cipher_mode :: "lib \<Rightarrow> pyval prog" where
  "insecure_cipher_mode L =
     bindE (from_import L ''Crypto.Cipher'' ''AES'') (\<lambda>m.
     bindE (call L ''getattr'' [PStr ''Crypto.Cipher.AES'', PStr ''MODE_ECB''] []) (\<lambda>mode.
     bindE (call L ''Crypto.Cipher.AES.new'' [PBytes ''sixteen byte key'', mode] []) (\<lambda>cipher.
     returnE PNone)))"

text \<open>Lines 107-109.\<close>

definition insecure_temp :: "lib \<Rightarrow> pyval prog" where
  "insecure_temp L = bindE (call L ''tempfile.mktemp'' [] []) (\<lambda>filename. returnE filename)"

text \<open>Lines 113-114.\<close>

definition eval_usage :: "lib \<Rightarrow> pyval \<Rightarrow> pyval prog" where
  "eval_usage L user_input = call L ''eval'' [user_input] []"

text \<open>Lines 119-121.\<close>

definition url_open :: "lib \<Rightarrow> pyval \<Rightarrow> pyval prog" where
  "url_open L url =
     bindE (import_module L ''urllib.request'') (\<lambda>m.
     call L ''urllib.request.urlopen'' [url] [])"

text \<open>Lines 125-127.\<close>

definition insecure_random :: "lib \<Rightarrow> pyval prog" where
  "insecure_random L =
     bindE (call L ''random.randint'' [PInt 0, PInt 999999] []) (\<lambda>token.
     bindE (fmt L token) (\<lambda>t. returnE (PStr (''token_'' @ t))))"

text \<open>Lines 131-133.\<close>

definition use_telnet :: "lib \<Rightarrow> pyval prog" where
  "use_telnet L =
     bindE (import_module L ''telnetlib'') (\<lambda>m.
     bindE (call L ''telnetlib.Telnet'' [PStr ''example.com''] []) (\<lambda>tn. returnE PNone))"

text \<open>Lines 137-139.\<close>

definition parse_xml :: "lib \<Rightarrow> pyval \<Rightarrow> pyval prog" where
  "parse_xml L xml_string =
     bindE (import_module L ''xml.etree.ElementTree'') (\<lambda>m.
     call L ''xml.etree.ElementTree.fromstring'' [xml_string] [])"

text \<open>Lines 143-145.\<close>

definition use_ftp :: "lib \<Rightarrow> pyval prog" where
  "use_ftp L =
     bindE (import_module L ''ftplib'') (\<lambda>m.
     bindE (call L ''ftplib.FTP'' [PStr ''ftp.example.com''] []) (\<lambda>ftp. returnE PNone))"

text \<open>Lines 149-151.\<close>

definition insecure_ssl :: "lib \<Rightarrow> pyval prog" where
  "insecure_ssl L =
     bindE (call L ''ssl._create_unverified_context'' [] []) (\<lambda>context. returnE context)"

text \<open>Lines 155-159.\<close>

definition more_weak_hashes :: "lib \<Rightarrow> pyval \<Rightarrow> pyval prog" where
  "more_weak_hashes L data =
     bindE (call L ''hashlib.new'' [PStr ''md5''] []) (\<lambda>h1.
     bindE (call L ''hashlib.new'' [PStr ''sha1''] []) (\<lambda>h2.
     bindE (call_method L data ''encode'' [] []) (\<lambda>b.
     bindE (call_method L h1 ''update'' [b] []) (\<lambda>r.
     call_method L h1 ''hexdigest'' [] []))))"

text \<open>Lines 163-165.\<close>

definition insecure_request :: "lib \<Rightarrow> pyval prog" where
  "insecure_request L =
     bindE (import_module L ''requests'') (\<lambda>m.
     bindE (call L ''requests.get'' [PStr ''https://example.com''] [(''verify'', PBool False)])
       (\<lambda>response. returnE PNone))"

text \<open>Lines 169-171.\<close>

definition unsafe_yaml :: "lib \<Rightarrow> pyval \<Rightarrow> pyval prog" where
  "unsafe_yaml L yaml_string =
     bindE (import_module L ''yaml'') (\<lambda>m. call L ''yaml.load'' [yaml_string] [])"

text \<open>Lines 175-179; \<^verbatim>\<open>cmd\<close> is not used.\<close>

definition ssh_command :: "lib \<Rightarrow> pyval \<Rightarrow> pyval \<Rightarrow> pyval prog" where
  "ssh_command L host cmd =
     bindE (import_module L ''paramiko'') (\<lambda>m.
     bindE (call L ''paramiko.SSHClient'' [] []) (\<lambda>client.
     bindE (call L ''paramiko.AutoAddPolicy'' [] []) (\<lambda>policy.
     bindE (call_method L client ''set_missing_host_key_policy'' [policy] []) (\<lambda>r.
     bindE (call_method L client ''connect'' [host]
              [(''username'', PStr ''root''), (''password'', PStr ''toor'')]) (\<lambda>r'.
     returnE PNone)))))"

text \<open>Lines 183-184.\<close>

definition shell_injection :: "lib \<Rightarrow> pyval \<Rightarrow> pyval prog" where
  "shell_injection L user_input =
     bindE (fmt L user_input) (\<lambda>u.
     bindE (call L ''subprocess.Popen'' [PStr (''echo '' @ u)] [(''shell'', PBool True)])
       (\<lambda>r. returnE PNone))"

text \<open>Lines 188-189, 193-194, 198-199.\<close>

definition subprocess_call :: "lib \<Rightarrow> pyval \<Rightarrow> pyval prog" where
  "subprocess_call L cmd = bindE (call L ''subprocess.call'' [cmd] []) (\<lambda>r. returnE PNone)"

definition os_system_call :: "lib \<Rightarrow> pyval \<Rightarrow> pyval prog" where
  "os_system_call L cmd = bindE (call L ''os.system'' [cmd] []) (\<lambda>r. returnE PNone)"

definition popen_shell :: "lib \<Rightarrow> pyval \<Rightarrow> pyval prog" where
  "popen_shell L cmd = bindE (call L ''os.popen'' [cmd] []) (\<lambda>r. returnE PNone)"

text \<open>Lines 203-204.\<close>

definition partial_path_exec :: "lib \<Rightarrow> pyval prog" where
  "partial_path_exec L =
     bindE (call L ''subprocess.call''
              [PList [PStr ''python'', PStr ''-c'',
                      PStr (''print('' @ [CHR 0x27] @ ''hello'' @ [CHR 0x27] @ '')'')]] [])
       (\<lambda>r. returnE PNone)"

text \<open>
  Lines 208-210. \<^verbatim>\<open>str + v\<close> is the concatenation when \<open>v\<close> is a str; no other builtin
  type accepts a str on the left of \<^verbatim>\<open>+\<close>; a library object decides by its \<^verbatim>\<open>__radd__\<close>.
\<close>

definition sql_injection :: "lib \<Rightarrow> pyval \<Rightarrow> pyval prog" where
  "sql_injection L user_id =
     bindE (case user_id of
              PStr u \<Rightarrow> returnE (PStr (''SELECT * FROM users WHERE id = '' @ u))
            | PObj c fs \<Rightarrow>
                call L ''.__radd__'' [user_id, PStr ''SELECT * FROM users WHERE id = ''] []
            | _ \<Rightarrow> raiseE TypeError)
       (\<lambda>query. returnE query)"

text \<open>Lines 214-215.\<close>

definition wildcard_injection :: "lib \<Rightarrow> pyval prog" where
  "wildcard_injection L =
     bindE (call L ''subprocess.call'' [PStr ''tar cf archive.tar *''] [(''shell'', PBool True)])
       (\<lambda>r. returnE PNone)"

text \<open>Lines 220-222 and 226-228.\<close>

definition jinja_template :: "lib \<Rightarrow> pyval prog" where
  "jinja_template L =
     bindE (from_import L ''jinja2'' ''Environment'') (\<lambda>m.
     bindE (call L ''jinja2.Environment'' [] [(''autoescape'', PBool False)])
       (\<lambda>env. returnE PNone))"

definition mako_template :: "lib \<Rightarrow> pyval prog" where
  "mako_template L =
     bindE (from_import L ''mako.template'' ''Template'') (\<lambda>m.
     bindE (call L ''mako.template.Template'' [PStr ''<html>${user_input}</html>''] [])
       (\<lambda>t. returnE PNone))"

section \<open>Calling a function of the module\<close>

datatype fn =
    Assert_usage | Exec_usage | Bad_permissions | Bind_all_interfaces | Connect_db | Login
  | Use_tmp | Ignore_errors | Risky_operation | Continue_on_error | Process | Unsafe_pickle
  | Weak_hash | Weak_cipher | Insecure_cipher_mode | Insecure_temp | Eval_usage | Url_open
  | Insecure_random | Use_telnet | Parse_xml | Use_ftp | Insecure_ssl | More_weak_hashes
  | Insecure_request | Unsafe_yaml | Ssh_command | Shell_injection | Subprocess_call
  | Os_system_call | Popen_shell | Partial_path_exec | Sql_injection | Wildcard_injection
  | Jinja_template | Mako_template

text \<open>A call with the wrong number of positional arguments raises TypeError.\<close>

definition arity0 :: "pyval prog \<Rightarrow> pyval list \<Rightarrow> pyval prog" where
  "arity0 body args = (case args of [] \<Rightarrow> body | _ \<Rightarrow> raiseE TypeError)"

definition arity1 :: "(pyval \<Rightarrow> pyval prog) \<Rightarrow> pyval list \<Rightarrow> pyval prog" where
  "arity1 body args = (case args of [x] \<Rightarrow> body x | _ \<Rightarrow> raiseE TypeError)"

definition arity2 :: "(pyval \<Rightarrow> pyval \<Rightarrow> pyval prog) \<Rightarrow> pyval list \<Rightarrow> pyval prog" where
  "arity2 body args = (case args of [x, y] \<Rightarrow> body x y | _ \<Rightarrow> raiseE TypeError)"

primrec run :: "lib \<Rightarrow> fn \<Rightarrow> pyval list \<Rightarrow> pyval prog" where
  "run L Assert_usage args = arity1 assert_usage args"
| "run L Exec_usage args = arity1 (exec_usage L) args"
| "run L Bad_permissions args = arity0 (bad_permissions L) args"
| "run L Bind_all_interfaces args = arity0 (bind_all_interfaces L) args"
| "run L Connect_db args =
     (case args of [] \<Rightarrow> connect_db L (PStr ''admin123'') | _ \<Rightarrow> arity1 (connect_db L) args)"
| "run L Login args =
     (case args of [user] \<Rightarrow> login user (PStr ''default_pass'') | _ \<Rightarrow> arity2 login args)"
| "run L Use_tmp args = arity0 (use_tmp L) args"
| "run L Ignore_errors args = arity0 ignore_errors args"
| "run L Risky_operation args = arity0 risky_operation args"
| "run L Continue_on_error args = arity1 (continue_on_error L) args"
| "run L Process args = arity1 process args"
| "run L Unsafe_pickle args = arity0 (unsafe_pickle L) args"
| "run L Weak_hash args = arity1 (weak_hash L) args"
| "run L Weak_cipher args = arity0 (weak_cipher L) args"
| "run L Insecure_cipher_mode args = arity0 (insecure_cipher_mode L) args"
| "run L Insecure_temp args = arity0 (insecure_temp L) args"
| "run L Eval_usage args = arity1 (eval_usage L) args"
| "run L Url_open args = arity1 (url_open L) args"
| "run L Insecure_random args = arity0 (insecure_random L) args"
| "run L Use_telnet args = arity0 (use_telnet L) args"
| "run L Parse_xml args = arity1 (parse_xml L) args"
| "run L Use_ftp args = arity0 (use_ftp L) args"
| "run L Insecure_ssl args = arity0 (insecure_ssl L) args"
| "run L More_weak_hashes args = arity1 (more_weak_hashes L) args"
| "run L Insecure_request args = arity0 (insecure_request L) args"
| "run L Unsafe_yaml args = arity1 (unsafe_yaml L) args"
| "run L Ssh_command args = arity2 (ssh_command L) args"
| "run L Shell_injection args = arity1 (shell_injection L) args"
| "run L Subprocess_call args = arity1 (subprocess_call L) args"
| "run L Os_system_call args = arity1 (os_system_call L) args"
| "run L Popen_shell args = arity1 (popen_shell L) args"
| "run L Partial_path_exec args = arity0 (partial_path_exec L) args"
| "run L Sql_injection args = arity1 (sql_injection L) args"
| "run L Wildcard_injection args = arity0 (wildcard_injection L) args"
| "run L Jinja_template args = arity0 (jinja_template L) args"
| "run L Mako_template args = arity0 (mako_template L) args"

text \<open>The library calls one invocation adds to the log.\<close>

definition new_events :: "'a prog \<Rightarrow> state \<Rightarrow> event list" where
  "new_events m s = drop (length (trace s)) (trace (snd (m s)))"

section \<open>The library calls of each function\<close>

text \<open>
  The library entry points named in each function's body, in the order the body reaches
  them. \<^verbatim>\<open>format\<close>, \<^verbatim>\<open>list\<close> and \<^verbatim>\<open>.__radd__\<close> are the calls Python makes on a library
  object that is formatted in an f-string, iterated by \<^verbatim>\<open>for\<close>, or added to a str.
\<close>

primrec calls_of :: "fn \<Rightarrow> string list" where
  "calls_of Assert_usage = []"
| "calls_of Exec_usage = [''exec'']"
| "calls_of Bad_permissions = [''os.chmod'']"
| "calls_of Bind_all_interfaces = [''import'', ''socket.socket'', ''.bind'']"
| "calls_of Connect_db = [''format'']"
| "calls_of Login = []"
| "calls_of Use_tmp = [''open'', ''.write'', ''.close'']"
| "calls_of Ignore_errors = []"
| "calls_of Risky_operation = []"
| "calls_of Continue_on_error = [''list'']"
| "calls_of Process = []"
| "calls_of Unsafe_pickle = [''pickle.loads'']"
| "calls_of Weak_hash = [''.encode'', ''hashlib.md5'', ''.hexdigest'']"
| "calls_of Weak_cipher = [''import'', ''getattr'', ''Crypto.Cipher.DES.new'']"
| "calls_of Insecure_cipher_mode = [''import'', ''getattr'', ''Crypto.Cipher.AES.new'']"
| "calls_of Insecure_temp = [''tempfile.mktemp'']"
| "calls_of Eval_usage = [''eval'']"
| "calls_of Url_open = [''import'', ''urllib.request.urlopen'']"
| "calls_of Insecure_random = [''random.randint'', ''format'']"
| "calls_of Use_telnet = [''import'', ''telnetlib.Telnet'']"
| "calls_of Parse_xml = [''import'', ''xml.etree.ElementTree.fromstring'']"
| "calls_of Use_ftp = [''import'', ''ftplib.FTP'']"
| "calls_of Insecure_ssl = [''ssl._create_unverified_context'']"
| "calls_of More_weak_hashes = [''hashlib.new'', ''hashlib.new'', ''.encode'', ''.update'', ''.hexdigest'']"
| "calls_of Insecure_request = [''import'', ''requests.get'']"
| "calls_of Unsafe_yaml = [''import'', ''yaml.load'']"
| "calls_of Ssh_command = [''import'', ''paramiko.SSHClient'', ''paramiko.AutoAddPolicy'', ''.set_missing_host_key_policy'', ''.connect'']"
| "calls_of Shell_injection = [''format'', ''subprocess.Popen'']"
| "calls_of Subprocess_call = [''subprocess.call'']"
| "calls_of Os_system_call = [''os.system'']"
| "calls_of Popen_shell = [''os.popen'']"
| "calls_of Partial_path_exec = [''subprocess.call'']"
| "calls_of Sql_injection = [''.__radd__'']"
| "calls_of Wildcard_injection = [''subprocess.call'']"
| "calls_of Jinja_template = [''import'', ''jinja2.Environment'']"
| "calls_of Mako_template = [''import'', ''mako.template.Template'']"

text \<open>The world after the logged calls have acted on it, one after the other.\<close>

fun replay :: "lib \<Rightarrow> event list \<Rightarrow> world \<Rightarrow> world" where
  "replay L [] w = w"
| "replay L (Event n as kw r # evs) w = replay L evs (snd (L n as kw w))"

text \<open>
  A program conforms to a list of names when, from every state, the calls it adds to the
  log are a subsequence of the list, it changes the world by these calls only, it
  leaves \<^verbatim>\<open>__debug__\<close> alone, and it returns normally only if none of its calls raised.
\<close>

definition conforms :: "lib \<Rightarrow> string list \<Rightarrow> 'a prog \<Rightarrow> bool" where
  "conforms L ns m =
     (\<forall>s. \<exists>evs. trace (snd (m s)) = trace s @ evs \<and> debug (snd (m s)) = debug s
        \<and> env (snd (m s)) = replay L evs (env s)
        \<and> subseq (map event_name evs) ns
        \<and> (\<not> isl (fst (m s)) \<longrightarrow> \<not> (\<exists>ev \<in> set evs. event_raised ev)))"

text \<open>The functions with no \<^verbatim>\<open>return\<close> statement.\<close>

definition no_return_stmt :: "fn \<Rightarrow> bool" where
  "no_return_stmt f =
     (f \<in> set [Exec_usage, Bad_permissions, Bind_all_interfaces, Login, Use_tmp, Ignore_errors,
               Risky_operation, Continue_on_error, Process, Unsafe_pickle, Weak_cipher,
               Insecure_cipher_mode, Use_telnet, Use_ftp, Insecure_request, Ssh_command,
               Shell_injection, Subprocess_call, Os_system_call, Popen_shell,
               Partial_path_exec, Wildcard_injection, Jinja_template, Mako_template])"

text \<open>A program returns None whenever it returns.\<close>

definition ret_none :: "pyval prog \<Rightarrow> bool" where
  "ret_none m = (\<forall>s v. fst (m s) = Inr v \<longrightarrow> v = PNone)"





section \<open>A reference library\<close>

text \<open>
  A library for evaluating the functions on concrete inputs. It implements, as the
  Python documentation describes them: imports; \<^verbatim>\<open>open(path, "w")\<close>, which creates or truncates
  the file; \<^verbatim>\<open>write\<close> on the file object, which appends to the file and returns the number
  of characters; \<^verbatim>\<open>close\<close>; \<^verbatim>\<open>os.chmod\<close>, which fails on a missing path; \<^verbatim>\<open>socket.socket()\<close>
  and \<^verbatim>\<open>bind\<close>; and \<^verbatim>\<open>exec\<close> on the one program \<^verbatim>\<open>global PASSWORD; PASSWORD = None\<close>, which
  rebinds the name in the module namespace. Every other call raises.
\<close>

definition ref_lib :: lib where
  "ref_lib name as kw w =
     (if name = ''import'' then (Inr (PObj ''module'' as), w)
      else if name = ''open'' then
        (case as of
           [PStr path, PStr mode] \<Rightarrow>
             if mode = ''w'' then (Inr (PObj ''file'' [PStr path]), w\<lparr>files := (files w)(path \<mapsto> [])\<rparr>)
             else (Inl (Exception ''NotImplementedError''), w)
         | _ \<Rightarrow> (Inl (Exception ''NotImplementedError''), w))
      else if name = ''.write'' then
        (case as of
           [PObj c [PStr path], PStr text] \<Rightarrow>
             (case files w path of
                Some old \<Rightarrow> (Inr (PInt (int (length text))), w\<lparr>files := (files w)(path \<mapsto> old @ text)\<rparr>)
              | None \<Rightarrow> (Inl (Exception ''ValueError''), w))
         | _ \<Rightarrow> (Inl (Exception ''NotImplementedError''), w))
      else if name = ''.close'' then (Inr PNone, w)
      else if name = ''os.chmod'' then
        (case as of
           [PStr path, PInt mode] \<Rightarrow>
             if path \<in> dom (files w) then (Inr PNone, w\<lparr>perms := (perms w)(path \<mapsto> nat mode)\<rparr>)
             else (Inl (Exception ''FileNotFoundError''), w)
         | _ \<Rightarrow> (Inl (Exception ''NotImplementedError''), w))
      else if name = ''socket.socket'' then (Inr (PObj ''socket'' []), w)
      else if name = ''.bind'' then (Inr PNone, w)
      else if name = ''exec'' \<and> as = [PStr ''global PASSWORD; PASSWORD = None''] then
        (Inr PNone, w\<lparr>globals := (globals w)(''PASSWORD'' \<mapsto> PNone)\<rparr>)
      else (Inl (Exception ''NotImplementedError''), w))"

text \<open>
  The state after the module has been loaded by an interpreter with an empty file system;
  \<open>dbg\<close> is the interpreter's \<^verbatim>\<open>__debug__\<close>.
\<close>

definition loaded :: "bool \<Rightarrow> state" where
  "loaded dbg =
     \<lparr>env = module_load \<lparr>files = Map.empty, perms = Map.empty, globals = Map.empty\<rparr>,
      trace = [], debug = dbg\<rparr>"


section \<open>The text of the fixture\<close>

text \<open>
  The 228 lines of \<^verbatim>\<open>test-fixtures/bandit-issues.py\<close>, in order and without their line
  ends; the last line is not terminated. A single quote is written \<open>CHR 0x27\<close> and a
  backslash \<open>CHR 0x5C\<close>.
\<close>

definition fixture_lines :: "string list" where
  \<open>fixture_lines =
    [
     ''# Bandit test file - intentionally dirty code for security scanning'',
     ''# This file triggers various Bandit security warnings'',
     ''# WARNING: This is intentionally insecure code for testing purposes only!'',
     '''',
     ''import os'',
     ''import subprocess'',
     ''import pickle'',
     ''import hashlib'',
     ''import tempfile'',
     ''import random'',
     ''import ssl'',
     '''',
     '''',
     ''# B101: Assert used - assert statements are removed with compiling to optimized code'',
     ''def assert_usage(user_input):'',
     ''    assert user_input is not None, "Input required"'',
     ''    return user_input'',
     '''',
     '''',
     ''# B102: exec_used - Use of exec detected'',
     ''def exec_usage(code_string):'',
     ''    exec(code_string)'',
     '''',
     '''',
     ''# B103: set_bad_file_permissions'',
     ''def bad_permissions():'',
     ''    os.chmod("/tmp/secret.txt", 0o777)'',
     '''',
     '''',
     ''# B104: hardcoded_bind_all_interfaces'',
     ''def bind_all_interfaces():'',
     ''    import socket'',
     ''    s = socket.socket()'',
     ''    s.bind(("0.0.0.0", 8080))'',
     '''',
     '''',
     ''# B105, B106, B107: hardcoded_password_string/funcarg/default'',
     ''PASSWORD = "super_secret_password123"'',
     ''API_KEY = "sk-1234567890abcdef"'',
     '''',
     '''',
     ''def connect_db(password="admin123"):'',
     ''    return f"connecting with {password}"'',
     '''',
     '''',
     ''def login(user, passwd="default_pass"):'',
     ''    pass'',
     '''',
     '''',
     ''# B108: hardcoded_tmp_directory'',
     ''def use_tmp():'',
     ''    with open("/tmp/data.txt", "w") as f:'',
     ''        f.write("sensitive data")'',
     '''',
     '''',
     ''# B110: try_except_pass - Try/except with pass, ignoring errors'',
     ''def ignore_errors():'',
     ''    try:'',
     ''        risky_operation()'',
     ''    except Exception:'',
     ''        pass'',
     '''',
     '''',
     ''def risky_operation():'',
     ''    pass'',
     '''',
     '''',
     ''# B112: try_except_continue'',
     ''def continue_on_error(items):'',
     ''    for item in items:'',
     ''        try:'',
     ''            process(item)'',
     ''        except Exception:'',
     ''            continue'',
     '''',
     '''',
     ''def process(item):'',
     ''    pass'',
     '''',
     '''',
     ''# B201: flask_debug_true (simulated)'',
     ''# B301: pickle - Pickle usage detected'',
     ''def unsafe_pickle():'',
     ''    data = pickle.loads(b"cos'' @ [CHR 0x5C] @ ''nsystem'' @ [CHR 0x5C] @ ''n(S'' @ [CHR 0x27] @ ''echo hacked'' @ [CHR 0x27] @ [CHR 0x5C] @ ''ntR.")'',
     '''',
     '''',
     ''# B303: md5 - Use of insecure MD5 hash function'',
     ''def weak_hash(data):'',
     ''    return hashlib.md5(data.encode()).hexdigest()'',
     '''',
     '''',
     ''# B304: des - Use of insecure cipher'',
     ''def weak_cipher():'',
     ''    from Crypto.Cipher import DES'',
     ''    key = b'' @ [CHR 0x27] @ ''12345678'' @ [CHR 0x27],
     ''    cipher = DES.new(key, DES.MODE_ECB)'',
     '''',
     '''',
     ''# B305: cipher_modes - Use of insecure cipher mode'',
     ''def insecure_cipher_mode():'',
     ''    from Crypto.Cipher import AES'',
     ''    key = b'' @ [CHR 0x27] @ ''sixteen byte key'' @ [CHR 0x27],
     ''    cipher = AES.new(key, AES.MODE_ECB)'',
     '''',
     '''',
     ''# B306: mktemp_q - Use of insecure mktemp'',
     ''def insecure_temp():'',
     ''    filename = tempfile.mktemp()'',
     ''    return filename'',
     '''',
     '''',
     ''# B307: eval - Use of eval'',
     ''def eval_usage(user_input):'',
     ''    return eval(user_input)'',
     '''',
     '''',
     ''# B308: mark_safe (Django) - simulated'',
     ''# B310: urllib_urlopen - Audit url open for permitted schemes'',
     ''def url_open(url):'',
     ''    import urllib.request'',
     ''    return urllib.request.urlopen(url)'',
     '''',
     '''',
     ''# B311: random - Use of pseudo-random generator for security'',
     ''def insecure_random():'',
     ''    token = random.randint(0, 999999)'',
     ''    return f"token_{token}"'',
     '''',
     '''',
     ''# B312: telnetlib - Telnet-related functions'',
     ''def use_telnet():'',
     ''    import telnetlib'',
     ''    tn = telnetlib.Telnet("example.com")'',
     '''',
     '''',
     ''# B320, B410: xml - XML parsing vulnerable to XXE attacks'',
     ''def parse_xml(xml_string):'',
     ''    import xml.etree.ElementTree as ET'',
     ''    return ET.fromstring(xml_string)'',
     '''',
     '''',
     ''# B321: ftplib - FTP-related functions'',
     ''def use_ftp():'',
     ''    import ftplib'',
     ''    ftp = ftplib.FTP("ftp.example.com")'',
     '''',
     '''',
     ''# B323: unverified_context - SSL certificate verification disabled'',
     ''def insecure_ssl():'',
     ''    context = ssl._create_unverified_context()'',
     ''    return context'',
     '''',
     '''',
     ''# B324: hashlib_new_insecure_functions - Insecure hash functions'',
     ''def more_weak_hashes(data):'',
     ''    h1 = hashlib.new('' @ [CHR 0x27] @ ''md5'' @ [CHR 0x27] @ '')'',
     ''    h2 = hashlib.new('' @ [CHR 0x27] @ ''sha1'' @ [CHR 0x27] @ '')'',
     ''    h1.update(data.encode())'',
     ''    return h1.hexdigest()'',
     '''',
     '''',
     ''# B501: request_with_no_cert_validation'',
     ''def insecure_request():'',
     ''    import requests'',
     ''    response = requests.get("https://example.com", verify=False)'',
     '''',
     '''',
     ''# B506: yaml_load - Use of unsafe YAML load'',
     ''def unsafe_yaml(yaml_string):'',
     ''    import yaml'',
     ''    return yaml.load(yaml_string)'',
     '''',
     '''',
     ''# B601: paramiko_calls - Paramiko SSH calls'',
     ''def ssh_command(host, cmd):'',
     ''    import paramiko'',
     ''    client = paramiko.SSHClient()'',
     ''    client.set_missing_host_key_policy(paramiko.AutoAddPolicy())'',
     ''    client.connect(host, username="root", password="toor")'',
     '''',
     '''',
     ''# B602: subprocess_popen_with_shell_equals_true'',
     ''def shell_injection(user_input):'',
     ''    subprocess.Popen(f"echo {user_input}", shell=True)'',
     '''',
     '''',
     ''# B603: subprocess_without_shell_equals_true (still flagged for audit)'',
     ''def subprocess_call(cmd):'',
     ''    subprocess.call(cmd)'',
     '''',
     '''',
     ''# B604: any_other_function_with_shell_equals_true'',
     ''def os_system_call(cmd):'',
     ''    os.system(cmd)'',
     '''',
     '''',
     ''# B605: start_process_with_a_shell'',
     ''def popen_shell(cmd):'',
     ''    os.popen(cmd)'',
     '''',
     '''',
     ''# B607: start_process_with_partial_path'',
     ''def partial_path_exec():'',
     ''    subprocess.call(["python", "-c", "print('' @ [CHR 0x27] @ ''hello'' @ [CHR 0x27] @ '')"])'',
     '''',
     '''',
     ''# B608: hardcoded_sql_expressions - SQL injection'',
     ''def sql_injection(user_id):'',
     ''    query = "SELECT * FROM users WHERE id = " + user_id'',
     ''    return query'',
     '''',
     '''',
     ''# B609: linux_commands_wildcard_injection'',
     ''def wildcard_injection():'',
     ''    subprocess.call("tar cf archive.tar *", shell=True)'',
     '''',
     '''',
     ''# B610, B611: django_extra_used, django_rawsql_used - simulated'',
     ''# B701: jinja2_autoescape_false - Jinja2 templates with autoescape disabled'',
     ''def jinja_template():'',
     ''    from jinja2 import Environment'',
     ''    env = Environment(autoescape=False)'',
     '''',
     '''',
     ''# B702: use_of_mako_templates - Mako templates (no autoescape)'',
     ''def mako_template():'',
     ''    from mako.template import Template'',
     ''    t = Template("<html>${user_input}</html>")''
    ]\<close>

section \<open>Labels and constructs\<close>









section \<open>The rule catalog\<close>










section \<open>Rules for the program combinators\<close>

lemma replay_append: "replay L (xs @ ys) w = replay L ys (replay L xs w)"
  by (induction L xs w rule: replay.induct) simp_all

lemma conforms_return: "conforms L ns (returnE x)"
  by (simp add: conforms_def returnE_def)

lemma conforms_raise: "conforms L ns (raiseE e)"
  by (simp add: conforms_def raiseE_def)

lemma conforms_call: "conforms L (n # ns) (call L n as kw)"
proof -
  have "\<exists>evs. trace (snd (call L n as kw s)) = trace s @ evs \<and> debug (snd (call L n as kw s)) = debug s
        \<and> env (snd (call L n as kw s)) = replay L evs (env s)
        \<and> subseq (map event_name evs) (n # ns)
        \<and> (\<not> isl (fst (call L n as kw s)) \<longrightarrow> \<not> (\<exists>ev \<in> set evs. event_raised ev))" for s
    by (rule exI [of _ "[Event n as kw (fst (L n as kw (env s)))]"])
       (simp add: call_def split: prod.splits)
  then show ?thesis by (simp add: conforms_def)
qed

lemma conforms_bind:
  assumes m: "conforms L a m" and f: "\<And>x. conforms L b (f x)"
  shows "conforms L (a @ b) (bindE m f)"
  unfolding conforms_def
proof
  fix s
  obtain r s' where ms: "m s = (r, s')" by (cases "m s")
  from m obtain evs1 where e1: "trace s' = trace s @ evs1" "debug s' = debug s"
      "env s' = replay L evs1 (env s)" "subseq (map event_name evs1) a"
      "\<not> isl r \<longrightarrow> \<not> (\<exists>ev \<in> set evs1. event_raised ev)"
    unfolding conforms_def using ms by (metis fst_conv snd_conv)
  show "\<exists>evs. trace (snd (bindE m f s)) = trace s @ evs \<and> debug (snd (bindE m f s)) = debug s
        \<and> env (snd (bindE m f s)) = replay L evs (env s)
        \<and> subseq (map event_name evs) (a @ b)
        \<and> (\<not> isl (fst (bindE m f s)) \<longrightarrow> \<not> (\<exists>ev \<in> set evs. event_raised ev))"
  proof (cases r)
    case (Inl e)
    with ms e1 show ?thesis
      by (intro exI [of _ evs1]) (simp add: bindE_def subseq_rev_drop_many)
  next
    case (Inr x)
    from f [of x] obtain evs2 where e2: "trace (snd (f x s')) = trace s' @ evs2"
        "debug (snd (f x s')) = debug s'"
        "env (snd (f x s')) = replay L evs2 (env s')" "subseq (map event_name evs2) b"
        "\<not> isl (fst (f x s')) \<longrightarrow> \<not> (\<exists>ev \<in> set evs2. event_raised ev)"
      unfolding conforms_def by blast
    from Inr e1 have no1: "\<not> (\<exists>ev \<in> set evs1. event_raised ev)" by simp
    have b: "bindE m f s = f x s'" using ms Inr by (simp add: bindE_def)
    show ?thesis
      unfolding b using e1 e2 no1
      by (intro exI [of _ "evs1 @ evs2"]) (auto simp add: replay_append list_emb_append_mono)
  qed
qed

lemma conforms_bind_call:
  "(\<And>x. conforms L ns (f x)) \<Longrightarrow> conforms L (n # ns) (bindE (call L n as kw) f)"
  using conforms_bind [of L "[n]" "call L n as kw" ns f] conforms_call [of L n "[]"] by simp

lemma conforms_method: "n = ''.'' @ m \<Longrightarrow> conforms L (n # ns) (call_method L recv m as kw)"
  by (simp add: call_method_def conforms_call conforms_raise)

lemma conforms_bind_method:
  "n = ''.'' @ m \<Longrightarrow> (\<And>x. conforms L ns (f x))
     \<Longrightarrow> conforms L (n # ns) (bindE (call_method L recv m as kw) f)"
  using conforms_bind [of L "[n]" "call_method L recv m as kw" ns f]
    conforms_method [of n m L "[]"] by simp

lemma conforms_bind_import:
  "(\<And>x. conforms L ns (f x)) \<Longrightarrow> conforms L (''import'' # ns) (bindE (import_module L m) f)"
  "(\<And>x. conforms L ns (f x)) \<Longrightarrow> conforms L (''import'' # ns) (bindE (from_import L m n) f)"
  by (simp_all add: import_module_def from_import_def conforms_bind_call)

lemma conforms_fmt: "conforms L (''format'' # ns) (fmt L v)"
proof -
  have "conforms L (''format'' # ns) (bindE (call L ''format'' [v] [])
               (\<lambda>r. case r of PStr s \<Rightarrow> returnE s | _ \<Rightarrow> raiseE TypeError))"
    by (rule conforms_bind_call) (simp add: conforms_return conforms_raise split: pyval.splits)
  then show ?thesis
    by (cases v) (simp_all add: fmt_def conforms_return)
qed

lemma conforms_bind_fmt:
  "(\<And>x. conforms L ns (f x)) \<Longrightarrow> conforms L (''format'' # ns) (bindE (fmt L v) f)"
  using conforms_bind [of L "[''format'']" "fmt L v" ns f] conforms_fmt [of L "[]"] by simp

lemma conforms_iterate: "conforms L (''list'' # ns) (iterate L v)"
proof -
  have "conforms L (''list'' # ns) (bindE (call L ''list'' [v] [])
               (\<lambda>r. case r of PList xs \<Rightarrow> returnE xs | _ \<Rightarrow> raiseE TypeError))"
    by (rule conforms_bind_call) (simp add: conforms_return conforms_raise split: pyval.splits)
  then show ?thesis
    by (cases v) (simp_all add: iterate_def conforms_return conforms_raise)
qed

lemma conforms_with_file:
  assumes "conforms L a body"
  shows "conforms L (a @ [''.close'']) (with_file L f body)"
  unfolding conforms_def
proof
  fix s
  obtain r s' where ms: "body s = (r, s')" by (cases "body s")
  from assms obtain evs1 where e1: "trace s' = trace s @ evs1" "debug s' = debug s"
      "env s' = replay L evs1 (env s)" "subseq (map event_name evs1) a"
      "\<not> isl r \<longrightarrow> \<not> (\<exists>ev \<in> set evs1. event_raised ev)"
    unfolding conforms_def using ms by (metis fst_conv snd_conv)
  let ?c = "call_method L f ''close'' [] []"
  obtain r2 s2 where cs: "?c s' = (r2, s2)" by (cases "?c s'")
  have "conforms L [''.close''] ?c" by (simp add: conforms_method)
  then obtain evs2 where e2: "trace s2 = trace s' @ evs2" "debug s2 = debug s'"
      "env s2 = replay L evs2 (env s')" "subseq (map event_name evs2) [''.close'']"
      "\<not> isl r2 \<longrightarrow> \<not> (\<exists>ev \<in> set evs2. event_raised ev)"
    unfolding conforms_def using cs by (metis fst_conv snd_conv)
  have sub: "subseq (map event_name (evs1 @ evs2)) (a @ [''.close''])"
    using e1(4) e2(4) by (simp add: list_emb_append_mono)
  have w: "with_file L f body s =
      (case r of Inl e \<Rightarrow> (case r2 of Inl e' \<Rightarrow> Inl e' | Inr x \<Rightarrow> Inl e)
               | Inr x \<Rightarrow> (case r2 of Inl e' \<Rightarrow> Inl e' | Inr y \<Rightarrow> Inr PNone), s2)"
    using ms cs by (simp add: with_file_def bindE_def returnE_def split: sum.splits)
  show "\<exists>evs. trace (snd (with_file L f body s)) = trace s @ evs
        \<and> debug (snd (with_file L f body s)) = debug s
        \<and> env (snd (with_file L f body s)) = replay L evs (env s)
        \<and> subseq (map event_name evs) (a @ [''.close''])
        \<and> (\<not> isl (fst (with_file L f body s)) \<longrightarrow> \<not> (\<exists>ev \<in> set evs. event_raised ev))"
    unfolding w using e1 e2 sub
    by (intro exI [of _ "evs1 @ evs2"]) (auto simp add: replay_append split: sum.splits)
qed

lemma conforms_arity:
  "conforms L ns body \<Longrightarrow> conforms L ns (arity0 body args)"
  "(\<And>x. conforms L ns (body1 x)) \<Longrightarrow> conforms L ns (arity1 body1 args)"
  "(\<And>x y. conforms L ns (body2 x y)) \<Longrightarrow> conforms L ns (arity2 body2 args)"
  by (simp_all add: arity0_def arity1_def arity2_def conforms_raise split: list.splits)

lemmas conforms_intros = conforms_return conforms_raise conforms_call conforms_bind_call
  conforms_method conforms_bind_method conforms_bind_import conforms_fmt conforms_bind_fmt

section \<open>Every function conforms to its list of calls\<close>

lemma for_items_process: "for_items process items = returnE PNone"
  by (induction items) (simp_all add: process_def try_except_def bindE_def returnE_def fun_eq_iff)

lemma conforms_continue_on_error: "conforms L [''list''] (continue_on_error L items)"
  using conforms_bind [of L "[''list'']" "iterate L items" "[]" "for_items process"]
  by (simp add: continue_on_error_def continue_on_error_with_def conforms_iterate
        for_items_process conforms_return)

lemma conforms_ignore_errors: "conforms L [] ignore_errors"
proof -
  have h: "ignore_errors = returnE PNone"
    by (simp add: ignore_errors_def ignore_errors_with_def risky_operation_def try_except_def
          bindE_def returnE_def fun_eq_iff)
  show ?thesis unfolding h by (rule conforms_return)
qed

lemma conforms_assert_usage: "conforms L ns (assert_usage user_input)"
  by (simp add: conforms_def assert_usage_def returnE_def raiseE_def)

lemma conforms_use_tmp: "conforms L [''open'', ''.write'', ''.close''] (use_tmp L)"
proof -
  have "conforms L ([''.write''] @ [''.close'']) (with_file L f (call_method L f ''write'' as kw))"
    for f as kw
    by (rule conforms_with_file) (simp add: conforms_method)
  then show ?thesis
    unfolding use_tmp_def by (intro conforms_bind_call) simp
qed

lemma conforms_sql_injection: "conforms L [''.__radd__''] (sql_injection L user_id)"
proof -
  have "conforms L ([''.__radd__''] @ []) (sql_injection L user_id)"
    unfolding sql_injection_def
    by (rule conforms_bind) (simp_all add: conforms_intros split: pyval.splits)
  then show ?thesis by simp
qed

lemma run_conforms: "conforms L (calls_of f) (run L f args)"
proof (cases f)
  case Connect_db
  then show ?thesis
    by (auto simp add: connect_db_def arity1_def split: list.splits intro!: conforms_intros)
next
  case Login
  then show ?thesis
    by (auto simp add: login_def arity2_def split: list.splits intro!: conforms_intros)
next
  case Use_tmp
  then show ?thesis by (simp add: conforms_arity conforms_use_tmp)
next
  case Ignore_errors
  then show ?thesis by (simp add: conforms_arity conforms_ignore_errors)
next
  case Continue_on_error
  then show ?thesis by (simp add: conforms_arity conforms_continue_on_error)
next
  case Sql_injection
  then show ?thesis by (simp add: conforms_arity conforms_sql_injection)
qed (auto simp add: conforms_assert_usage exec_usage_def bad_permissions_def
      bind_all_interfaces_def risky_operation_def process_def unsafe_pickle_def weak_hash_def
      weak_cipher_def insecure_cipher_mode_def insecure_temp_def eval_usage_def url_open_def
      insecure_random_def use_telnet_def parse_xml_def use_ftp_def insecure_ssl_def
      more_weak_hashes_def insecure_request_def unsafe_yaml_def ssh_command_def
      shell_injection_def subprocess_call_def os_system_call_def popen_shell_def
      partial_path_exec_def wildcard_injection_def jinja_template_def mako_template_def
      intro!: conforms_arity conforms_intros)

lemma run_events:
  "trace (snd (run L f args s)) = trace s @ new_events (run L f args) s"
  "env (snd (run L f args s)) = replay L (new_events (run L f args) s) (env s)"
  "subseq (map event_name (new_events (run L f args) s)) (calls_of f)"
  "\<not> isl (fst (run L f args s)) \<Longrightarrow> ev \<in> set (new_events (run L f args) s)
     \<Longrightarrow> \<not> event_raised ev"
proof -
  from run_conforms [of L f args] obtain evs where e:
      "trace (snd (run L f args s)) = trace s @ evs"
      "env (snd (run L f args s)) = replay L evs (env s)"
      "subseq (map event_name evs) (calls_of f)"
      "\<not> isl (fst (run L f args s)) \<longrightarrow> \<not> (\<exists>ev \<in> set evs. event_raised ev)"
    unfolding conforms_def by blast
  have n: "new_events (run L f args) s = evs" by (simp add: new_events_def e(1))
  show "trace (snd (run L f args s)) = trace s @ new_events (run L f args) s"
    "env (snd (run L f args s)) = replay L (new_events (run L f args) s) (env s)"
    "subseq (map event_name (new_events (run L f args) s)) (calls_of f)"
    "\<not> isl (fst (run L f args s)) \<Longrightarrow> ev \<in> set (new_events (run L f args) s)
       \<Longrightarrow> \<not> event_raised ev"
    using e by (simp_all add: n)
qed

lemma run_event_names:
  assumes "ev \<in> set (new_events (run L f args) s)"
  shows "event_name ev \<in> set (calls_of f)"
proof -
  from assms have "event_name ev \<in> set (map event_name (new_events (run L f args) s))" by simp
  with run_events(3) [of L f args s] obtain y where "y \<in> set (calls_of f)" "event_name ev = y"
    by (rule list_emb_set)
  then show ?thesis by simp
qed






lemma print_not_called: "''print'' \<notin> set (calls_of f)"
  by (cases f; simp)





lemma ret_none_return: "ret_none (returnE PNone)"
  by (simp add: ret_none_def returnE_def)

lemma ret_none_raise: "ret_none (raiseE e)"
  by (simp add: ret_none_def raiseE_def)

lemma ret_none_bind: "(\<And>x. ret_none (g x)) \<Longrightarrow> ret_none (bindE m g)"
  by (auto simp add: ret_none_def bindE_def split: prod.splits sum.splits)

lemma ret_none_with_file: "ret_none (with_file L f body)"
  by (auto simp add: ret_none_def with_file_def bindE_def returnE_def split: prod.splits sum.splits)

lemma ret_none_arity:
  "ret_none body \<Longrightarrow> ret_none (arity0 body args)"
  "(\<And>x. ret_none (body1 x)) \<Longrightarrow> ret_none (arity1 body1 args)"
  "(\<And>x y. ret_none (body2 x y)) \<Longrightarrow> ret_none (arity2 body2 args)"
  by (simp_all add: arity0_def arity1_def arity2_def ret_none_raise split: list.splits)

lemma ret_none_loop: "ret_none (for_items callee items)"
  by (induction items) (simp_all add: ret_none_return ret_none_bind)

lemmas ret_none_intros = ret_none_return ret_none_raise ret_none_bind ret_none_with_file
  ret_none_arity ret_none_loop

lemma run_ret_none: "no_return_stmt f \<Longrightarrow> ret_none (run L f args)"
  by (cases f)
     (simp_all add: no_return_stmt_def exec_usage_def bad_permissions_def bind_all_interfaces_def
        login_def use_tmp_def ignore_errors_def ignore_errors_with_def risky_operation_def
        continue_on_error_def continue_on_error_with_def process_def unsafe_pickle_def
        weak_cipher_def insecure_cipher_mode_def use_telnet_def use_ftp_def insecure_request_def
        ssh_command_def shell_injection_def subprocess_call_def os_system_call_def popen_shell_def
        partial_path_exec_def wildcard_injection_def jinja_template_def mako_template_def
        ret_none_intros split: list.splits)

lemmas eval_defs = returnE_def raiseE_def bindE_def call_def import_module_def from_import_def
  call_method_def arity0_def arity1_def arity2_def new_events_def loaded_def module_load_def
  ref_lib_def


section \<open>Properties\<close>

text \<open>
  C1 (as amended). Each of the 24 functions that have no \<^verbatim>\<open>return\<close> statement returns
  None whenever it returns, and no function body calls \<^verbatim>\<open>print\<close>. The claim that no return
  value depends on an argument does not hold: \<^verbatim>\<open>assert_usage\<close> returns its argument
  unchanged when that is not None, \<^verbatim>\<open>connect_db\<close> returns \<^verbatim>\<open>"connecting with "\<close> followed by
  the password string, and \<^verbatim>\<open>sql_injection\<close> returns its query prefix followed by
  \<open>user_id\<close>.
\<close>

theorem return_values:
  "(no_return_stmt f \<longrightarrow> (\<forall>v. fst (run L f args s) = Inr v \<longrightarrow> v = PNone)) \<and>
   (\<forall>ev \<in> set (new_events (run L f args) s). event_name ev \<noteq> ''print'') \<and>
   (user_input \<noteq> PNone \<longrightarrow> run L Assert_usage [user_input] s = (Inr user_input, s)) \<and>
   run L Connect_db [PStr password] s = (Inr (PStr (''connecting with '' @ password)), s) \<and>
   run L Sql_injection [PStr user_id] s
     = (Inr (PStr (''SELECT * FROM users WHERE id = '' @ user_id)), s)"
proof (intro conjI impI allI ballI)
  fix v assume "no_return_stmt f" "fst (run L f args s) = Inr v"
  then show "v = PNone" using run_ret_none [of f L args] by (simp add: ret_none_def)
next
  fix ev assume "ev \<in> set (new_events (run L f args) s)"
  from run_event_names [OF this] print_not_called [of f]
  show "event_name ev \<noteq> ''print''" by metis
next
  assume "user_input \<noteq> PNone"
  then show "run L Assert_usage [user_input] s = (Inr user_input, s)"
    by (simp add: arity1_def assert_usage_def returnE_def)
next
  show "run L Connect_db [PStr password] s = (Inr (PStr (''connecting with '' @ password)), s)"
    by (simp add: arity1_def connect_db_def fmt_def bindE_def returnE_def)
next
  show "run L Sql_injection [PStr user_id] s
      = (Inr (PStr (''SELECT * FROM users WHERE id = '' @ user_id)), s)"
    by (simp add: arity1_def sql_injection_def bindE_def returnE_def)
qed

theorem return_values_witness:
  "no_return_stmt Login \<and>
   fst (run ref_lib Login [PStr ''alice''] (loaded True)) = Inr PNone \<and>
   map event_name (new_events (run ref_lib Partial_path_exec []) (loaded True))
     = [''subprocess.call''] \<and>
   run ref_lib Assert_usage [PInt 7] (loaded True) = (Inr (PInt 7), loaded True) \<and>
   run ref_lib Connect_db [PStr ''pw''] (loaded True)
     = (Inr (PStr ''connecting with pw''), loaded True) \<and>
   run ref_lib Sql_injection [PStr ''1 OR 1=1''] (loaded True)
     = (Inr (PStr ''SELECT * FROM users WHERE id = 1 OR 1=1''), loaded True)"
  using return_values [where f = Login and L = ref_lib and args = "[PStr ''alice'']"
      and s = "loaded True" and user_input = "PInt 7" and password = "''pw''"
      and user_id = "''1 OR 1=1''"]
    return_values [where f = Partial_path_exec and L = ref_lib and args = "[]"
      and s = "loaded True" and user_input = "PInt 7" and password = "''pw''"
      and user_id = "''1 OR 1=1''"]
  by (simp add: no_return_stmt_def login_def eval_defs partial_path_exec_def)

text \<open>
  The claim as stated fails for \<^verbatim>\<open>sql_injection\<close>: the results for \<^verbatim>\<open>"1"\<close> and \<^verbatim>\<open>"2"\<close>
  differ.
\<close>

theorem sql_injection_depends_on_argument:
  "fst (run ref_lib Sql_injection [PStr ''1''] (loaded True))
     \<noteq> fst (run ref_lib Sql_injection [PStr ''2''] (loaded True))"
  by (simp add: eval_defs sql_injection_def)









text \<open>C5. The fixture source file consists of exactly 228 lines.\<close>

theorem fixture_has_228_lines: "length fixture_lines = 228"
  by (simp add: fixture_lines_def)




text \<open>
  C8 (as amended). \<^verbatim>\<open>assert_usage\<close> returns every input other than None unchanged. When
  assertions are compiled (\<^verbatim>\<open>__debug__\<close> is true, the default) it raises AssertionError if
  and only if the input is None. Under \<^verbatim>\<open>python -O\<close> the assert statement is removed, as
  the comment of line 14 says, and None is returned like any other input.
\<close>

theorem assert_usage_checks_when_debug:
  "(user_input \<noteq> PNone \<longrightarrow> assert_usage user_input s = (Inr user_input, s)) \<and>
   (debug s \<longrightarrow>
      ((\<exists>msg. fst (assert_usage user_input s) = Inl (AssertionError msg))
         \<longleftrightarrow> user_input = PNone)) \<and>
   (\<not> debug s \<longrightarrow> assert_usage user_input s = (Inr user_input, s))"
  by (simp add: assert_usage_def returnE_def raiseE_def)

theorem assert_usage_checks_when_debug_witness:
  "assert_usage (PStr ''x'') (loaded True) = (Inr (PStr ''x''), loaded True) \<and>
   (\<exists>msg. fst (assert_usage PNone (loaded True)) = Inl (AssertionError msg)) \<and>
   assert_usage (PInt 0) (loaded False) = (Inr (PInt 0), loaded False)"
  using assert_usage_checks_when_debug [of "PStr ''x''" "loaded True"]
    assert_usage_checks_when_debug [of PNone "loaded True"]
    assert_usage_checks_when_debug [of "PInt 0" "loaded False"]
  by (simp add: loaded_def)

text \<open>
  The claim as stated fails under \<^verbatim>\<open>python -O\<close>: for the input None nothing is raised and
  None is returned.
\<close>

theorem assert_usage_optimized_returns_None:
  "assert_usage PNone (loaded False) = (Inr PNone, loaded False)"
  by (simp add: assert_usage_def returnE_def loaded_def)




text \<open>
  C10. For every string \<open>user_id\<close>, \<^verbatim>\<open>sql_injection(user_id)\<close> returns exactly
  \<^verbatim>\<open>"SELECT * FROM users WHERE id = "\<close> followed by \<open>user_id\<close>, character for character:
  nothing is quoted or escaped, no library is called and the state is unchanged.
\<close>

theorem sql_injection_concatenates:
  "sql_injection L (PStr user_id) s
     = (Inr (PStr (''SELECT * FROM users WHERE id = '' @ user_id)), s)"
  by (simp add: sql_injection_def bindE_def returnE_def)

end
